theory Spec2Isabelle
  imports Complex_Main
begin

unbundle bit_operations_syntax

section \<open>Numbers and errors\<close>

text \<open>
  The Python source computes with \<open>int\<close> and \<open>float\<close> values mixed freely
  (\<open>/\<close> is true division, \<open>float(value)\<close> converts the samples). Percentages, raw
  samples and calibration bounds are modelled as \<^typ>\<open>real\<close>: the idealised value of
  the float computation. Device values produced by \<open>int(...)\<close> are \<^typ>\<open>int\<close>.
  Every exception the modelled code can raise is a value of \<open>py_error\<close>.
\<close>

datatype py_error = ZeroDivisionError

text \<open>Python's \<open>a / b\<close>: raises on a zero divisor.\<close>

definition py_truediv :: "real \<Rightarrow> real \<Rightarrow> py_error + real" where
  "py_truediv a b = (if b = 0 then Inl ZeroDivisionError else Inr (a / b))"

text \<open>Python's \<open>int(x)\<close> on a float: truncation toward zero.\<close>

definition py_int :: "real \<Rightarrow> int" where
  "py_int x = (if 0 \<le> x then \<lfloor>x\<rfloor> else \<lceil>x\<rceil>)"

section \<open>ControlPanelConfig\<close>

text \<open>One entry of \<open>pot_config\<close>: the dictionary built in \<open>ControlPanelConfig.__init__\<close>.
  The key \<open>'type'\<close> is the field \<open>pot_type\<close>, \<open>'min'\<close> and \<open>'max'\<close> are \<open>min_val\<close> and
  \<open>max_val\<close>. The type is kept as the string the source stores.\<close>

record pot =
  name :: string
  pot_type :: string
  invert :: bool
  min_val :: real
  max_val :: real
  threshold :: real
  vjoy_axis :: "string option"
  button_id :: "int option"
  calibrated_min :: real
  calibrated_max :: real

record ControlPanelConfig =
  CONTROL_TYPES :: "string list"
  pot_config :: "pot list"

text \<open>The name \<open>f"Pot {i+1}"\<close> for \<open>i\<close> in \<open>range(7)\<close>: one decimal digit.\<close>

definition default_pot :: "nat \<Rightarrow> pot" where
  "default_pot i =
     \<lparr> name = ''Pot '' @ [char_of (49 + i)],
       pot_type = ''Axis'',
       invert = False,
       min_val = 0,
       max_val = 100,
       threshold = 50,
       vjoy_axis = None,
       button_id = None,
       calibrated_min = 0,
       calibrated_max = 100 \<rparr>"

definition ControlPanelConfig_init :: ControlPanelConfig where
  "ControlPanelConfig_init =
     \<lparr> CONTROL_TYPES = [''Axis'', ''Switch'', ''Button'', ''Disabled''],
       pot_config = map default_pot [0..<7] \<rparr>"

text \<open>The guard \<open>0 <= index < len(self.pot_config)\<close> of every setter.\<close>

definition index_ok :: "ControlPanelConfig \<Rightarrow> int \<Rightarrow> bool" where
  "index_ok self index \<longleftrightarrow> 0 \<le> index \<and> index < int (length (pot_config self))"

definition update_pot :: "ControlPanelConfig \<Rightarrow> int \<Rightarrow> (pot \<Rightarrow> pot) \<Rightarrow> ControlPanelConfig" where
  "update_pot self index f =
     self\<lparr>pot_config := (pot_config self)[nat index := f (pot_config self ! nat index)]\<rparr>"

definition set_pot_name :: "ControlPanelConfig \<Rightarrow> int \<Rightarrow> string \<Rightarrow> ControlPanelConfig" where
  "set_pot_name self index nm =
     (if index_ok self index then update_pot self index (\<lambda>p. p\<lparr>name := nm\<rparr>) else self)"

definition set_pot_type :: "ControlPanelConfig \<Rightarrow> int \<Rightarrow> string \<Rightarrow> ControlPanelConfig" where
  "set_pot_type self index type_name =
     (if index_ok self index \<and> type_name \<in> set (CONTROL_TYPES self)
      then update_pot self index (\<lambda>p. p\<lparr>pot_type := type_name\<rparr>) else self)"

definition set_pot_threshold :: "ControlPanelConfig \<Rightarrow> int \<Rightarrow> real \<Rightarrow> ControlPanelConfig" where
  "set_pot_threshold self index th =
     (if index_ok self index then update_pot self index (\<lambda>p. p\<lparr>threshold := th\<rparr>) else self)"

definition toggle_pot_inversion :: "ControlPanelConfig \<Rightarrow> int \<Rightarrow> ControlPanelConfig" where
  "toggle_pot_inversion self index =
     (if index_ok self index then update_pot self index (\<lambda>p. p\<lparr>invert := \<not> invert p\<rparr>) else self)"

definition calibrate_pot_min :: "ControlPanelConfig \<Rightarrow> int \<Rightarrow> real \<Rightarrow> ControlPanelConfig" where
  "calibrate_pot_min self index v =
     (if index_ok self index then update_pot self index (\<lambda>p. p\<lparr>calibrated_min := v\<rparr>) else self)"

definition calibrate_pot_max :: "ControlPanelConfig \<Rightarrow> int \<Rightarrow> real \<Rightarrow> ControlPanelConfig" where
  "calibrate_pot_max self index v =
     (if index_ok self index then update_pot self index (\<lambda>p. p\<lparr>calibrated_max := v\<rparr>) else self)"

text \<open>
  \<open>process_pot_value\<close>, in the three stages the source marks with comments.
  \<open>pot_calibrate\<close> is "Ensure raw_value is within expected range" up to the clamp of
  \<open>calibrated\<close>; \<open>pot_invert\<close> is "Apply inversion if needed"; \<open>pot_interpret\<close> is
  "Process based on type".
\<close>

definition pot_calibrate :: "pot \<Rightarrow> real \<Rightarrow> py_error + real" where
  "pot_calibrate config raw_value =
     (let raw_value = max 0 (min 1023 raw_value);
          cal_min = calibrated_min config;
          cal_max = calibrated_max config;
          invalid = (cal_min \<ge> cal_max);
          cal_min = (if invalid then 0 else cal_min);
          cal_max = (if invalid then 1023 else cal_max)
      in if cal_max = cal_min then Inr 50
         else (case py_truediv (raw_value - cal_min) (cal_max - cal_min) of
                 Inl e \<Rightarrow> Inl e
               | Inr q \<Rightarrow> Inr (max 0 (min 100 (q * 100)))))"

definition pot_invert :: "pot \<Rightarrow> real \<Rightarrow> real" where
  "pot_invert config calibrated = (if invert config then 100 - calibrated else calibrated)"

definition pot_interpret :: "pot \<Rightarrow> real \<Rightarrow> real" where
  "pot_interpret config calibrated =
     (if pot_type config = ''Axis'' then calibrated
      else if pot_type config = ''Switch'' \<or> pot_type config = ''Button''
           then (if calibrated > threshold config then 100 else 0)
      else calibrated)"

definition process_pot_value :: "ControlPanelConfig \<Rightarrow> int \<Rightarrow> real \<Rightarrow> py_error + real" where
  "process_pot_value self index raw_value =
     (if index < 0 \<or> index \<ge> int (length (pot_config self)) then Inr 0
      else let config = pot_config self ! nat index
           in if pot_type config = ''Disabled'' then Inr 0
              else (case pot_calibrate config raw_value of
                      Inl e \<Rightarrow> Inl e
                    | Inr calibrated \<Rightarrow> Inr (pot_interpret config (pot_invert config calibrated))))"

section \<open>FlightControls\<close>

datatype ControlProfile = MSFS | DCS | XPLANE | IL2 | WAR_THUNDER

datatype ControllerType = XBOX | VJOY

text \<open>The keys \<open>'throttle'\<close>, \<open>'reverse'\<close>, \<open>'prop'\<close>, \<open>'mixture'\<close> of the dictionaries
  \<open>calibration\<close> and \<open>invert_axis\<close>.\<close>

datatype control = Throttle | Reverse | Prop | Mixture

text \<open>One entry of \<open>calibration\<close>: \<open>{'min': .., 'max': .., 'idle': ..}\<close>.\<close>

record cal =
  cal_min :: real
  cal_max :: real
  idle :: real

text \<open>
  The two output devices belong to external libraries. Each is modelled by the values
  last written to it: the fields of \<open>vjoy_dev.data\<close> that the source assigns, and one
  field per argument of the gamepad's trigger and joystick calls. \<open>lButtons\<close> is an
  unbounded integer used as a bit mask. \<open>vjoy_dev.update()\<close> and the gamepad calls do
  not fail in the model.
\<close>

record vjoy_data =
  wAxisX :: int
  wAxisY :: int
  wAxisZ :: int
  wAxisXRot :: int
  wAxisYRot :: int
  wAxisZRot :: int
  wSlider :: int
  wDial :: int
  lButtons :: int

record gamepad_state =
  left_trigger :: int
  right_trigger :: int
  left_joystick_x :: int
  left_joystick_y :: int
  right_joystick_x :: int
  right_joystick_y :: int

text \<open>
  The object state of \<open>FlightControls\<close>. \<open>vjoy_dev\<close> is \<open>None\<close> when the device could
  not be opened. The dictionaries \<open>button_states\<close> and \<open>last_pot_values\<close> are keyed by
  the string \<open>f"pot_{i}_button_{button_id}"\<close>, which determines the pair of the
  channel index and the button id; the pair is the key of the model.
  \<open>controls_active\<close> is an attribute that only the surrounding application sets:
  \<open>None\<close> stands for \<open>hasattr(self, 'controls_active')\<close> being false.
\<close>

record FlightControls =
  controller_type :: ControllerType
  gamepad :: gamepad_state
  current_profile :: ControlProfile
  vjoy_dev :: "vjoy_data option"
  calibration :: "control \<Rightarrow> cal"
  invert_axis :: "control \<Rightarrow> bool"
  prop_as_speedbrake :: bool
  control_panel :: ControlPanelConfig
  button_states :: "nat \<times> int \<rightharpoonup> int"
  last_pot_values :: "nat \<times> int \<rightharpoonup> bool"
  controls_active :: "bool option"

text \<open>\<open>FlightControls.__init__\<close>; the argument is the outcome of opening the vJoy
  device and the gamepad.\<close>

definition FlightControls_init :: "gamepad_state \<Rightarrow> vjoy_data option \<Rightarrow> FlightControls" where
  "FlightControls_init pad dev =
     \<lparr> controller_type = XBOX,
       gamepad = pad,
       current_profile = MSFS,
       vjoy_dev = map_option (\<lambda>d. d\<lparr>wAxisX := 16384, wAxisY := 16384, wAxisZ := 16384,
                                      wAxisXRot := 0\<rparr>) dev,
       calibration = (\<lambda>_. \<lparr>cal_min = 0, cal_max = 100, idle = 0\<rparr>),
       invert_axis = (\<lambda>_. False),
       prop_as_speedbrake = False,
       control_panel = ControlPanelConfig_init,
       button_states = Map.empty,
       last_pot_values = Map.empty,
       controls_active = None \<rparr>"

subsection \<open>Calibration\<close>

definition calibrate_simple :: "FlightControls \<Rightarrow> real \<Rightarrow> control \<Rightarrow> py_error + real" where
  "calibrate_simple self v control_type =
     (let c = calibration self control_type
      in if v \<le> idle c then Inr 0
         else if cal_max c = idle c then Inr 100
         else (case py_truediv (v - idle c) (cal_max c - idle c) of
                 Inl e \<Rightarrow> Inl e
               | Inr ratio \<Rightarrow> Inr (max 0 (min 1 ratio) * 100)))"

definition calibrate_throttle :: "FlightControls \<Rightarrow> real \<Rightarrow> py_error + real" where
  "calibrate_throttle self v =
     (let c = calibration self Throttle
      in if v \<le> idle c then Inr 0
         else if cal_max c = idle c then Inr 100
         else (case py_truediv (v - idle c) (cal_max c - idle c) of
                 Inl e \<Rightarrow> Inl e
               | Inr ratio \<Rightarrow> Inr (max 0 (min 1 ratio) * 100)))"

definition calibrate_reverse :: "FlightControls \<Rightarrow> real \<Rightarrow> py_error + real" where
  "calibrate_reverse self v =
     (let c = calibration self Reverse
      in if v \<ge> idle c then Inr 0
         else if idle c = cal_min c then Inr 100
         else (case py_truediv (idle c - v) (idle c - cal_min c) of
                 Inl e \<Rightarrow> Inl e
               | Inr ratio \<Rightarrow> Inr (max 0 (min 1 ratio) * 100)))"

definition apply_inversion :: "FlightControls \<Rightarrow> real \<Rightarrow> control \<Rightarrow> real" where
  "apply_inversion self v control_type =
     (if invert_axis self control_type then 100 - v else v)"

definition process_throttle_input :: "FlightControls \<Rightarrow> real \<Rightarrow> py_error + real \<times> real" where
  "process_throttle_input self raw_value =
     (case calibrate_throttle self raw_value of
        Inl e \<Rightarrow> Inl e
      | Inr forward \<Rightarrow>
          (case calibrate_reverse self raw_value of
             Inl e \<Rightarrow> Inl e
           | Inr rev_thrust \<Rightarrow>
               Inr (apply_inversion self forward Throttle,
                    apply_inversion self rev_thrust Reverse)))"

subsection \<open>Gamepad mappings\<close>

definition map_controls_msfs :: "FlightControls \<Rightarrow> real \<Rightarrow> real \<Rightarrow> real \<Rightarrow> FlightControls" where
  "map_controls_msfs self thr prp mix =
     (let g = gamepad self;
          g = (if thr \<ge> 0
               then g\<lparr>right_trigger := py_int (thr * 327.67), left_trigger := 0\<rparr>
               else g\<lparr>right_trigger := 0, left_trigger := py_int (\<bar>thr\<bar> * 327.67)\<rparr>);
          g = g\<lparr>right_joystick_x := 0, right_joystick_y := py_int (prp * 655.34 - 32768)\<rparr>;
          g = g\<lparr>left_joystick_x := 0, left_joystick_y := py_int (mix * 655.34 - 32768)\<rparr>
      in self\<lparr>gamepad := g\<rparr>)"

definition map_controls_dcs :: "FlightControls \<Rightarrow> real \<Rightarrow> real \<Rightarrow> real \<Rightarrow> FlightControls" where
  "map_controls_dcs self thr prp mix =
     (let g = gamepad self;
          g = g\<lparr>left_joystick_x := py_int (prp * 655.34 - 32768),
                left_joystick_y := py_int (thr * 655.34 - 32768)\<rparr>;
          g = g\<lparr>right_joystick_x := 0, right_joystick_y := py_int (mix * 655.34 - 32768)\<rparr>
      in self\<lparr>gamepad := g\<rparr>)"

definition map_controls_xplane :: "FlightControls \<Rightarrow> real \<Rightarrow> real \<Rightarrow> real \<Rightarrow> FlightControls" where
  "map_controls_xplane self thr prp mix =
     (let g = gamepad self;
          g = (if thr \<ge> 0
               then g\<lparr>right_trigger := py_int (thr * 327.67)\<rparr>
               else g\<lparr>left_trigger := py_int (\<bar>thr\<bar> * 327.67)\<rparr>);
          g = g\<lparr>right_joystick_x := py_int (mix * 655.34 - 32768),
                right_joystick_y := py_int (prp * 655.34 - 32768)\<rparr>
      in self\<lparr>gamepad := g\<rparr>)"

text \<open>The IL-2 mapping passes only \<open>y_value\<close> to \<open>left_joystick\<close>; the model leaves the
  x value as it was.\<close>

definition map_controls_il2 :: "FlightControls \<Rightarrow> real \<Rightarrow> real \<Rightarrow> real \<Rightarrow> FlightControls" where
  "map_controls_il2 self thr prp mix =
     (let g = gamepad self;
          g = g\<lparr>left_trigger := py_int ((mix + 100) * 163.835)\<rparr>;
          g = g\<lparr>right_trigger := py_int ((prp + 100) * 163.835)\<rparr>;
          g = g\<lparr>left_joystick_y := py_int (thr * 655.34 - 32768)\<rparr>
      in self\<lparr>gamepad := g\<rparr>)"

subsection \<open>vJoy mapping and dispatch\<close>

text \<open>The calibrations inside the \<open>try\<close> block of \<open>map_controls_vjoy\<close>. Both branches
  of the test on \<open>prop_as_speedbrake\<close> compute the same value.\<close>

definition vjoy_calibrated ::
  "FlightControls \<Rightarrow> real \<Rightarrow> real \<Rightarrow> real \<Rightarrow> py_error + real \<times> real \<times> real \<times> real" where
  "vjoy_calibrated self throttle_raw prop_raw mixture_raw =
     (case process_throttle_input self throttle_raw of
        Inl e \<Rightarrow> Inl e
      | Inr (forward_throttle, reverse_throttle) \<Rightarrow>
          (case (if prop_as_speedbrake self then calibrate_simple self prop_raw Prop
                 else calibrate_simple self prop_raw Prop) of
             Inl e \<Rightarrow> Inl e
           | Inr prp \<Rightarrow>
               (case calibrate_simple self mixture_raw Mixture of
                  Inl e \<Rightarrow> Inl e
                | Inr mix \<Rightarrow>
                    Inr (forward_throttle, reverse_throttle,
                         apply_inversion self prp Prop,
                         apply_inversion self mix Mixture))))"

text \<open>\<open>int(p * 327.68)\<close> clamped into \<open>[0, 32768]\<close>.\<close>

definition vjoy_scale :: "real \<Rightarrow> int" where
  "vjoy_scale p = max 0 (min 32768 (py_int (p * 327.68)))"

definition map_controls_vjoy ::
  "FlightControls \<Rightarrow> real \<Rightarrow> real \<Rightarrow> real \<Rightarrow> FlightControls \<times> real \<times> real \<times> real \<times> real" where
  "map_controls_vjoy self throttle_raw prop_raw mixture_raw =
     (case vjoy_dev self of
        None \<Rightarrow> (self, 0, 0, 0, 0)
      | Some dev \<Rightarrow>
          (case vjoy_calibrated self throttle_raw prop_raw mixture_raw of
             Inl e \<Rightarrow> (self, 0, 0, 0, 0)
           | Inr (forward_throttle, reverse_throttle, prp, mix) \<Rightarrow>
               (self\<lparr>vjoy_dev := Some (dev\<lparr>wAxisX := vjoy_scale forward_throttle,
                                             wAxisXRot := vjoy_scale reverse_throttle,
                                             wAxisY := vjoy_scale prp,
                                             wAxisZ := vjoy_scale mix\<rparr>)\<rparr>,
                forward_throttle, reverse_throttle, prp, mix)))"

text \<open>The dictionary \<open>mapping_functions\<close> of \<open>apply_mapping\<close>; it has no entry for
  War Thunder, which the branch before it has taken.\<close>

fun mapping_functions ::
  "ControlProfile \<Rightarrow> (FlightControls \<Rightarrow> real \<Rightarrow> real \<Rightarrow> real \<Rightarrow> FlightControls) option" where
  "mapping_functions MSFS = Some map_controls_msfs"
| "mapping_functions DCS = Some map_controls_dcs"
| "mapping_functions XPLANE = Some map_controls_xplane"
| "mapping_functions IL2 = Some map_controls_il2"
| "mapping_functions WAR_THUNDER = None"

datatype mapping_error = Arith py_error | KeyError

definition apply_mapping ::
  "FlightControls \<Rightarrow> real \<Rightarrow> real \<Rightarrow> real \<Rightarrow>
   mapping_error + FlightControls \<times> real \<times> real \<times> real \<times> real" where
  "apply_mapping self throttle_raw prop_raw mixture_raw =
     (case calibrate_simple self prop_raw Prop of
        Inl e \<Rightarrow> Inl (Arith e)
      | Inr prp0 \<Rightarrow>
     (case calibrate_simple self mixture_raw Mixture of
        Inl e \<Rightarrow> Inl (Arith e)
      | Inr mix0 \<Rightarrow>
     (let prp = apply_inversion self prp0 Prop;
          mix = apply_inversion self mix0 Mixture
      in if controller_type self = VJOY \<or> current_profile self = WAR_THUNDER
         then Inr (map_controls_vjoy self throttle_raw prop_raw mixture_raw)
         else (case process_throttle_input self throttle_raw of
                 Inl e \<Rightarrow> Inl (Arith e)
               | Inr (forward, rev_thrust) \<Rightarrow>
                   (case mapping_functions (current_profile self) of
                      None \<Rightarrow> Inl KeyError
                    | Some f \<Rightarrow>
                        Inr (f self (forward - rev_thrust) prp mix,
                             forward, rev_thrust, prp, mix))))))"

subsection \<open>The control panel\<close>








section \<open>Runs, observations and example states\<close>







text \<open>The latch of a Switch channel as a function: the stored button state after a
  sample, from the previous threshold state, the stored state and the current threshold
  state; and its trace over a list of threshold states.\<close>

definition switch_next :: "bool \<Rightarrow> int \<Rightarrow> bool \<Rightarrow> int" where
  "switch_next previous stored current =
     (if current \<and> \<not> previous then (if stored = 0 then 1 else 0) else stored)"

fun switch_trace :: "bool \<Rightarrow> int \<Rightarrow> bool list \<Rightarrow> int list" where
  "switch_trace previous stored [] = []"
| "switch_trace previous stored (c # cs) =
     switch_next previous stored c # switch_trace c (switch_next previous stored c) cs"




text \<open>Devices on which nothing has been written yet.\<close>

definition gamepad_rest :: gamepad_state where
  "gamepad_rest =
     \<lparr> left_trigger = 0, right_trigger = 0, left_joystick_x = 0, left_joystick_y = 0,
       right_joystick_x = 0, right_joystick_y = 0 \<rparr>"


text \<open>A state whose throttle and reverse calibration are both
  \<open>{min: 0, idle: 200, max: 1000}\<close>, not inverted.\<close>

definition split_calibrated :: "FlightControls \<Rightarrow> FlightControls" where
  "split_calibrated self =
     self\<lparr>calibration := (calibration self)
             (Throttle := \<lparr>cal_min = 0, cal_max = 1000, idle = 200\<rparr>,
              Reverse := \<lparr>cal_min = 0, cal_max = 1000, idle = 200\<rparr>),
          invert_axis := (invert_axis self)(Throttle := False, Reverse := False)\<rparr>"



section \<open>Properties of ControlPanelConfig\<close>

lemma length_init: "length (pot_config ControlPanelConfig_init) = 7"
  by (simp add: ControlPanelConfig_init_def)


lemma pot_calibrate_degenerate:
  "calibrated_min config \<ge> calibrated_max config \<Longrightarrow>
   pot_calibrate config raw = Inr (max 0 (min 1023 raw) / 1023 * 100)"
proof -
  assume "calibrated_min config \<ge> calibrated_max config"
  moreover have "0 \<le> max 0 (min 1023 raw) / 1023 * 100" by simp
  moreover have "max 0 (min 1023 raw) / 1023 * 100 \<le> 100" by simp
  ultimately show ?thesis
    by (simp add: pot_calibrate_def py_truediv_def Let_def max_absorb2 min_absorb2)
qed

lemma init_pots:
  "pot_config ControlPanelConfig_init =
     [default_pot 0, default_pot 1, default_pot 2, default_pot 3, default_pot 4,
      default_pot 5, default_pot 6]"
  by (simp add: ControlPanelConfig_init_def upt_rec eval_nat_numeral)

lemma init_types:
  "CONTROL_TYPES ControlPanelConfig_init = [''Axis'', ''Switch'', ''Button'', ''Disabled'']"
  by (simp add: ControlPanelConfig_init_def)

subsection \<open>Startup defaults\<close>

text \<open>
  Claim C8, as stated, fails: the first channel created at startup has
  \<open>calibrated_max = 100\<close>, not 1023.
\<close>

theorem default_calibrated_max_counterexample:
  "\<not> (calibrated_min (pot_config ControlPanelConfig_init ! 0) = 0
      \<and> calibrated_max (pot_config ControlPanelConfig_init ! 0) = 1023)"
  by (simp add: init_pots default_pot_def)

text \<open>
  Claim C8, amended: \<open>ControlPanelConfig.__init__\<close> creates 7 channels, and every one
  of them has \<open>calibrated_min = 0\<close> and \<open>calibrated_max = 100\<close>.
\<close>

theorem default_calibration_range:
  "length (pot_config ControlPanelConfig_init) = 7 \<and>
   map (\<lambda>p. (calibrated_min p, calibrated_max p)) (pot_config ControlPanelConfig_init)
     = replicate 7 (0, 100)"
  by (simp add: init_pots default_pot_def numeral_eq_Suc)

subsection \<open>Channel index out of range\<close>

text \<open>
  Claim C9: with the 7 channels of the panel, \<open>process_pot_value\<close> at an index below 0
  or above 6 returns 0 for every raw value. The result is a value, not an error, and no
  list access happens. The function has no assignment to the object: its model returns
  the value only, so configuration and toggle state are the ones before the call.
\<close>

theorem process_pot_value_out_of_range:
  "length (pot_config self) = 7 \<Longrightarrow> index < 0 \<or> index > 6 \<Longrightarrow>
   process_pot_value self index raw_value = Inr 0"
  by (auto simp: process_pot_value_def)

theorem process_pot_value_out_of_range_witness:
  "length (pot_config ControlPanelConfig_init) = 7 \<and> ((7::int) < 0 \<or> (7::int) > 6) \<and>
   process_pot_value ControlPanelConfig_init 7 512 = Inr 0 \<and>
   process_pot_value ControlPanelConfig_init (- 1) 512 = Inr 0"
  using process_pot_value_out_of_range [of ControlPanelConfig_init 7 512]
        process_pot_value_out_of_range [of ControlPanelConfig_init "- 1" 512]
  by (simp add: length_init)

subsection \<open>Setters with invalid arguments\<close>

text \<open>
  Claim C10: on a panel with the four control types and 7 channels, \<open>set_pot_type\<close> with
  a type name that is not one of Axis, Switch, Button, Disabled returns the
  configuration as it was, and so does each of \<open>set_pot_name\<close>, \<open>set_pot_type\<close>,
  \<open>set_pot_threshold\<close>, \<open>toggle_pot_inversion\<close>, \<open>calibrate_pot_min\<close> and
  \<open>calibrate_pot_max\<close> with an index below 0 or above 6.
\<close>

theorem setters_invalid_noop:
  assumes "CONTROL_TYPES self = [''Axis'', ''Switch'', ''Button'', ''Disabled'']"
      and "length (pot_config self) = 7"
  shows "(type_name \<notin> {''Axis'', ''Switch'', ''Button'', ''Disabled''} \<longrightarrow>
            set_pot_type self index type_name = self) \<and>
         (index < 0 \<or> index > 6 \<longrightarrow>
            set_pot_name self index nm = self \<and>
            set_pot_type self index type_name = self \<and>
            set_pot_threshold self index th = self \<and>
            toggle_pot_inversion self index = self \<and>
            calibrate_pot_min self index v = self \<and>
            calibrate_pot_max self index v = self)"
  using assms
  by (auto simp: set_pot_name_def set_pot_type_def set_pot_threshold_def
      toggle_pot_inversion_def calibrate_pot_min_def calibrate_pot_max_def index_ok_def)

theorem setters_invalid_noop_witness:
  "set_pot_type ControlPanelConfig_init 3 ''Knob'' = ControlPanelConfig_init \<and>
   set_pot_name ControlPanelConfig_init 7 ''Flaps'' = ControlPanelConfig_init \<and>
   set_pot_type ControlPanelConfig_init 7 ''Switch'' = ControlPanelConfig_init \<and>
   set_pot_threshold ControlPanelConfig_init (- 1) 30 = ControlPanelConfig_init \<and>
   toggle_pot_inversion ControlPanelConfig_init 7 = ControlPanelConfig_init \<and>
   calibrate_pot_min ControlPanelConfig_init (- 1) 10 = ControlPanelConfig_init \<and>
   calibrate_pot_max ControlPanelConfig_init 7 900 = ControlPanelConfig_init"
  using setters_invalid_noop [OF init_types length_init, of "''Knob''" 3 "''Flaps''" 30 10]
        setters_invalid_noop [OF init_types length_init, of "''Switch''" 7 "''Flaps''" 30 900]
        setters_invalid_noop [OF init_types length_init, of "''Switch''" "- 1" "''Flaps''" 30 10]
  by simp

subsection \<open>Degenerate calibration ranges\<close>

text \<open>
  Claim C4, as stated, fails: channel 0 set to the zero-width range
  \<open>calibrated_min = calibrated_max = 500\<close> (an Axis, not inverted) does not return 50 at
  the raw value 1023. The test \<open>cal_min >= cal_max\<close> has replaced the bounds by 0 and
  1023 before the test \<open>cal_max == cal_min\<close> is reached.
\<close>

theorem zero_width_midpoint_counterexample:
  "process_pot_value
     (calibrate_pot_max (calibrate_pot_min ControlPanelConfig_init 0 500) 0 500) 0 1023
   \<noteq> Inr 50"
  by (simp add: process_pot_value_def calibrate_pot_max_def calibrate_pot_min_def
      index_ok_def update_pot_def init_pots default_pot_def pot_calibrate_def py_truediv_def
      pot_interpret_def pot_invert_def Let_def)

text \<open>
  Claim C4, amended: for a channel that is not Disabled and whose \<open>calibrated_min\<close> is
  equal to or above its \<open>calibrated_max\<close> (zero-width or inverted bounds), the
  calibrated value before inversion and type interpretation is the raw value, clamped
  into \<open>[0, 1023]\<close>, mapped over the full raw domain, for every raw input;
  \<open>process_pot_value\<close> returns its inverted and interpreted value and raises nothing.
\<close>

theorem degenerate_range_full_domain:
  assumes "0 \<le> index" and "index < int (length (pot_config self))"
      and "config = pot_config self ! nat index"
      and "pot_type config \<noteq> ''Disabled''"
      and "calibrated_min config \<ge> calibrated_max config"
    shows "pot_calibrate config raw_value = Inr (max 0 (min 1023 raw_value) / 1023 * 100) \<and>
           process_pot_value self index raw_value =
             Inr (pot_interpret config
                   (pot_invert config (max 0 (min 1023 raw_value) / 1023 * 100)))"
  using assms pot_calibrate_degenerate [of config raw_value]
  by (simp add: process_pot_value_def Let_def)

theorem degenerate_range_full_domain_witness:
  "process_pot_value
     (calibrate_pot_max (calibrate_pot_min ControlPanelConfig_init 0 500) 0 500) 0 1023 = Inr 100 \<and>
   process_pot_value
     (calibrate_pot_max (calibrate_pot_min ControlPanelConfig_init 0 500) 0 500) 0 256 = Inr (25600 / 1023)"
proof -
  let ?S = "calibrate_pot_max (calibrate_pot_min ControlPanelConfig_init 0 500) 0 500"
  let ?c = "pot_config ?S ! 0"
  have c: "?c = (default_pot 0)\<lparr>calibrated_min := 500, calibrated_max := 500\<rparr>"
    by (simp add: calibrate_pot_max_def calibrate_pot_min_def index_ok_def update_pot_def init_pots)
  have 1: "(0::int) \<le> 0" by simp
  have 2: "0 < int (length (pot_config ?S))"
    by (simp add: calibrate_pot_max_def calibrate_pot_min_def index_ok_def update_pot_def init_pots)
  have 3: "?c = pot_config ?S ! nat 0" by simp
  have 4: "pot_type ?c \<noteq> ''Disabled''" by (simp add: c default_pot_def)
  have 5: "calibrated_min ?c \<ge> calibrated_max ?c" by (simp add: c default_pot_def)
  show ?thesis
    using degenerate_range_full_domain [OF 1 2 3 4 5, of 1023]
          degenerate_range_full_domain [OF 1 2 3 4 5, of 256]
    by (simp add: c default_pot_def pot_interpret_def pot_invert_def)
qed

section \<open>Properties of the throttle calibration\<close>

lemma calibrate_throttle_bounds:
  "\<exists>v. calibrate_throttle self raw = Inr v \<and> 0 \<le> v \<and> v \<le> 100"
  by (auto simp: calibrate_throttle_def py_truediv_def Let_def)

lemma calibrate_reverse_bounds:
  "\<exists>v. calibrate_reverse self raw = Inr v \<and> 0 \<le> v \<and> v \<le> 100"
  by (auto simp: calibrate_reverse_def py_truediv_def Let_def)

lemma calibrate_simple_bounds:
  "\<exists>v. calibrate_simple self raw c = Inr v \<and> 0 \<le> v \<and> v \<le> 100"
  by (auto simp: calibrate_simple_def py_truediv_def Let_def)



text \<open>
  Claim C6: with the inversion of throttle and reverse disabled, \<open>process_throttle_input\<close>
  returns a pair (it raises nothing); the forward output is 0 for every raw value at or
  below the idle point of the throttle calibration; the reverse output is 0 for every
  raw value at or above the idle point of the reverse calibration; and both outputs
  lie in \<open>[0, 100]\<close> for every raw value.
\<close>

theorem idle_split_zero_sides:
  assumes "\<not> invert_axis self Throttle" and "\<not> invert_axis self Reverse"
  shows "\<exists>forward rev_thrust.
           process_throttle_input self raw_value = Inr (forward, rev_thrust) \<and>
           (raw_value \<le> idle (calibration self Throttle) \<longrightarrow> forward = 0) \<and>
           (raw_value \<ge> idle (calibration self Reverse) \<longrightarrow> rev_thrust = 0) \<and>
           0 \<le> forward \<and> forward \<le> 100 \<and> 0 \<le> rev_thrust \<and> rev_thrust \<le> 100"
proof -
  obtain f where f: "calibrate_throttle self raw_value = Inr f" "0 \<le> f" "f \<le> 100"
    using calibrate_throttle_bounds by blast
  obtain r where r: "calibrate_reverse self raw_value = Inr r" "0 \<le> r" "r \<le> 100"
    using calibrate_reverse_bounds by blast
  have f0: "raw_value \<le> idle (calibration self Throttle) \<longrightarrow> f = 0"
    using f(1) by (auto simp: calibrate_throttle_def Let_def)
  have r0: "raw_value \<ge> idle (calibration self Reverse) \<longrightarrow> r = 0"
    using r(1) by (auto simp: calibrate_reverse_def Let_def)
  show ?thesis
    using assms f r f0 r0 by (simp add: process_throttle_input_def apply_inversion_def)
qed

theorem idle_split_zero_sides_witness:
  "process_throttle_input (split_calibrated (FlightControls_init gamepad_rest None)) 200
     = Inr (0, 0)"
proof -
  let ?S = "split_calibrated (FlightControls_init gamepad_rest None)"
  have h1: "\<not> invert_axis ?S Throttle" by (simp add: split_calibrated_def)
  have h2: "\<not> invert_axis ?S Reverse" by (simp add: split_calibrated_def)
  have i1: "200 \<le> idle (calibration ?S Throttle)" by (simp add: split_calibrated_def)
  have i2: "200 \<ge> idle (calibration ?S Reverse)" by (simp add: split_calibrated_def)
  from idle_split_zero_sides [OF h1 h2, of 200] i1 i2
  show ?thesis by auto
qed

text \<open>
  Claim C7: with throttle and reverse calibration both \<open>{min: 0, idle: 200, max: 1000}\<close>
  and inversion disabled, the raw value 0 gives forward 0 and reverse 100, the raw value
  200 gives forward 0 and reverse 0, and the raw value 1000 gives forward 100 and
  reverse 0.
\<close>

theorem idle_split_scenario:
  "process_throttle_input (split_calibrated self) 0 = Inr (0, 100) \<and>
   process_throttle_input (split_calibrated self) 200 = Inr (0, 0) \<and>
   process_throttle_input (split_calibrated self) 1000 = Inr (100, 0)"
  by (simp add: split_calibrated_def process_throttle_input_def calibrate_throttle_def
        calibrate_reverse_def apply_inversion_def py_truediv_def Let_def)

section \<open>Properties of the profile mapping\<close>







text \<open>
  Claim C5, as stated, fails: with the vJoy device unavailable and the default
  calibration, the raw inputs 50, 50, 50 calibrate to forward 50, reverse 0, prop 50 and
  mixture 50, but the mapping call does not return these values.
\<close>

theorem vjoy_unavailable_counterexample:
  "vjoy_dev (FlightControls_init gamepad_rest None) = None \<and>
   vjoy_calibrated (FlightControls_init gamepad_rest None) 50 50 50 = Inr (50, 0, 50, 50) \<and>
   snd (map_controls_vjoy (FlightControls_init gamepad_rest None) 50 50 50) \<noteq> (50, 0, 50, 50)"
  by (simp add: map_controls_vjoy_def FlightControls_init_def vjoy_calibrated_def
     process_throttle_input_def calibrate_throttle_def calibrate_reverse_def calibrate_simple_def
     apply_inversion_def py_truediv_def Let_def)

text \<open>
  Claim C5, amended: when the vJoy device is unavailable, the vJoy mapping call returns
  the four values 0, 0, 0, 0 for every input and leaves the state as it was: nothing
  is delivered, no calibrated value is returned and no separate condition is signalled.
  \<open>apply_mapping\<close> returns the same whenever it takes the vJoy route.
\<close>

theorem vjoy_unavailable_returns_zeros:
  "vjoy_dev self = None \<Longrightarrow>
   map_controls_vjoy self throttle_raw prop_raw mixture_raw = (self, 0, 0, 0, 0) \<and>
   (controller_type self = VJOY \<or> current_profile self = WAR_THUNDER \<longrightarrow>
      apply_mapping self throttle_raw prop_raw mixture_raw = Inr (self, 0, 0, 0, 0))"
proof -
  assume n: "vjoy_dev self = None"
  obtain p0 where p0: "calibrate_simple self prop_raw Prop = Inr p0"
    using calibrate_simple_bounds by blast
  obtain m0 where m0: "calibrate_simple self mixture_raw Mixture = Inr m0"
    using calibrate_simple_bounds by blast
  show ?thesis using n p0 m0 by (auto simp: map_controls_vjoy_def apply_mapping_def Let_def)
qed

theorem vjoy_unavailable_returns_zeros_witness:
  "vjoy_dev ((FlightControls_init gamepad_rest None)\<lparr>controller_type := VJOY\<rparr>) = None \<and>
   map_controls_vjoy ((FlightControls_init gamepad_rest None)\<lparr>controller_type := VJOY\<rparr>) 50 50 50
     = ((FlightControls_init gamepad_rest None)\<lparr>controller_type := VJOY\<rparr>, 0, 0, 0, 0) \<and>
   apply_mapping ((FlightControls_init gamepad_rest None)\<lparr>controller_type := VJOY\<rparr>) 50 50 50
     = Inr ((FlightControls_init gamepad_rest None)\<lparr>controller_type := VJOY\<rparr>, 0, 0, 0, 0)"
proof -
  have h: "vjoy_dev ((FlightControls_init gamepad_rest None)\<lparr>controller_type := VJOY\<rparr>) = None"
    by (simp add: FlightControls_init_def)
  from vjoy_unavailable_returns_zeros [OF h, of 50 50 50] h show ?thesis by simp
qed

section \<open>Properties of the toggle state machine\<close>

















lemma length_switch_trace: "length (switch_trace p st cs) = length cs"
  by (induction cs arbitrary: p st) auto








end
